theory Spec2Isabelle
  imports Complex_Main "HOL-Library.Sublist"
begin

section \<open>Python strings\<close>

text \<open>
  A Python \<^verbatim>\<open>str\<close> is a \<^typ>\<open>string\<close>; one \<^typ>\<open>char\<close> stands for one code point
  below 256. The operations below are the ones \<^verbatim>\<open>app/core/llm.py\<close> uses:
  \<^verbatim>\<open>str.strip()\<close>, \<^verbatim>\<open>sub in s\<close>, \<^verbatim>\<open>s.find(sub, start)\<close> (\<open>None\<close> for \<^verbatim>\<open>-1\<close>),
  \<^verbatim>\<open>s.startswith\<close> (\<^const>\<open>prefix\<close>) and the slice \<^verbatim>\<open>s[a:b]\<close> for \<open>0 \<le> a\<close>.
\<close>

definition isspace :: "char \<Rightarrow> bool" where
  "isspace c = (of_char c \<in> {9, 10, 11, 12, 13, 28, 29, 30, 31, 32, 133, 160 :: nat})"

definition strip :: "string \<Rightarrow> string" where
  "strip s = rev (dropWhile isspace (rev (dropWhile isspace s)))"

fun find_sub :: "string \<Rightarrow> string \<Rightarrow> nat option" where
  "find_sub sub [] = (if sub = [] then Some 0 else None)"
| "find_sub sub (c # cs) =
     (if prefix sub (c # cs) then Some 0 else map_option Suc (find_sub sub cs))"

definition py_find :: "string \<Rightarrow> string \<Rightarrow> nat \<Rightarrow> nat option" where
  "py_find sub s start =
     (if length s < start then None
      else map_option (\<lambda>i. i + start) (find_sub sub (drop start s)))"

definition contains :: "string \<Rightarrow> string \<Rightarrow> bool" where
  "contains sub s = (py_find sub s 0 \<noteq> None)"

definition slice :: "'a list \<Rightarrow> nat \<Rightarrow> nat \<Rightarrow> 'a list" where
  "slice s a b = take (b - a) (drop a s)"

fun str_nat :: "nat \<Rightarrow> string" where
  "str_nat n =
     (if n < 10 then [''0123456789'' ! n]
      else str_nat (n div 10) @ [''0123456789'' ! (n mod 10)])"

definition str_int :: "int \<Rightarrow> string" where
  "str_int i = (if i < 0 then CHR ''-'' # str_nat (nat (- i)) else str_nat (nat i))"

section \<open>Exceptions\<close>

text \<open>
  Every exception that the modelled code raises or that the interpreter raises inside it.
  \<open>ValueError\<close> and \<open>LLMException\<close> carry the message the repository's code builds;
  the interpreter's own exceptions carry no text (their wording is the interpreter's).
\<close>

datatype exn =
    ValueError string
  | LLMException string
  | KeyError string
  | TypeError
  | AttributeError
  | ZeroDivisionError
  | OverflowError

section \<open>Generation client: \<^verbatim>\<open>app/core/llm.py\<close>\<close>

subsection \<open>\<^verbatim>\<open>generate_with_retry\<close>\<close>

text \<open>
  A message is a \<^verbatim>\<open>dict[str, str]\<close>, kept as an association list. The remote call
  \<^verbatim>\<open>generate\<close> is the environment: \<open>gen attempt\<close> is what the call made in loop
  round \<open>attempt\<close> does, \<open>Inr\<close> the generated text or \<open>Inl\<close> the message of the
  \<^verbatim>\<open>LLMException\<close> it raises (\<^verbatim>\<open>generate\<close> turns every failure into one). The
  wrapper's observable behaviour is the trace of calls and sleeps it performs, and its
  result. \<^verbatim>\<open>_extract_retry_delay\<close> (regular expressions over the error text) is the
  parameter \<open>extract_delay\<close>.
\<close>

type_synonym message = "(string \<times> string) list"

datatype event = Call "message list" | Sleep rat

definition str_last_error :: "string option \<Rightarrow> string" where
  "str_last_error e = (case e of None \<Rightarrow> ''None'' | Some m \<Rightarrow> m)"

function retry_loop ::
  "(string \<Rightarrow> rat) \<Rightarrow> (nat \<Rightarrow> string + string) \<Rightarrow> message list \<Rightarrow> int \<Rightarrow>
   nat \<Rightarrow> string option \<Rightarrow> event list \<Rightarrow> event list \<times> (exn + string)" where
  "retry_loop extract_delay gen messages max_retries attempt last_error trace =
     (if int attempt < max_retries then
        (case gen attempt of
           Inr content \<Rightarrow> (trace @ [Call messages], Inr content)
         | Inl error_str \<Rightarrow>
             (if contains ''CONNECTION_ERROR'' error_str \<or> contains ''TIMEOUT_ERROR'' error_str
              then retry_loop extract_delay gen messages max_retries (attempt + 1) (Some error_str)
                     (trace @ [Call messages, Sleep (of_int (min (2 ^ attempt) 10))])
              else if contains ''429'' error_str \<or> contains ''RATE_LIMITED'' error_str
              then retry_loop extract_delay gen messages max_retries (attempt + 1) (Some error_str)
                     (trace @ [Call messages, Sleep (extract_delay error_str)])
              else if int attempt < max_retries - 1
              then retry_loop extract_delay gen messages max_retries (attempt + 1) (Some error_str)
                     (trace @ [Call messages, Sleep (of_int (min (2 ^ attempt) 30))])
              else retry_loop extract_delay gen messages max_retries (attempt + 1) (Some error_str)
                     (trace @ [Call messages])))
      else (trace, Inl (LLMException (''Failed after '' @ str_int max_retries @
                          '' attempts: '' @ str_last_error last_error))))"
  by pat_completeness auto
termination
  by (relation "measure (\<lambda>(extract_delay, gen, messages, max_retries, attempt, last_error, trace).
        nat (max_retries - int attempt))") auto

definition generate_with_retry ::
  "(string \<Rightarrow> rat) \<Rightarrow> (nat \<Rightarrow> string + string) \<Rightarrow> message list \<Rightarrow> int \<Rightarrow>
   event list \<times> (exn + string)" where
  "generate_with_retry extract_delay gen messages max_retries =
     retry_loop extract_delay gen messages max_retries 0 None []"

subsection \<open>The extraction pipeline of \<^verbatim>\<open>generate_json\<close>\<close>

text \<open>
  Lines 121 to 152: trim; take the contents of the first \<^verbatim>\<open>```json\<close> fence, else of the
  first \<^verbatim>\<open>```\<close> fence (only when the closing fence exists); if the text then does not start
  with an opening brace, cut from the first opening brace to the brace that closes it
  (to nothing when no brace closes it); trim again.
\<close>

definition extract_fence :: "string \<Rightarrow> string" where
  "extract_fence response =
     (case py_find ''```json'' response 0 of
        Some k \<Rightarrow>
          (let start = k + 7 in
           case py_find ''```'' response start of
             Some e \<Rightarrow> strip (slice response start e)
           | None \<Rightarrow> response)
      | None \<Rightarrow>
          (case py_find ''```'' response 0 of
             Some k \<Rightarrow>
               (let start = k + 3 in
                case py_find ''```'' response start of
                  Some e \<Rightarrow> strip (slice response start e)
                | None \<Rightarrow> response)
           | None \<Rightarrow> response))"

text \<open>
  The scan \<^verbatim>\<open>for i, char in enumerate(response[start:])\<close>: \<open>Some (i + 1)\<close> at the
  \<^verbatim>\<open>break\<close>, \<open>None\<close> when the loop runs to the end (\<^verbatim>\<open>end\<close> stays \<^verbatim>\<open>start\<close>).
\<close>

fun scan_braces :: "string \<Rightarrow> int \<Rightarrow> nat \<Rightarrow> nat option" where
  "scan_braces [] brace_count i = None"
| "scan_braces (c # cs) brace_count i =
     (if c = CHR ''{'' then scan_braces cs (brace_count + 1) (i + 1)
      else if c = CHR ''}'' then
        (if brace_count - 1 = 0 then Some (i + 1)
         else scan_braces cs (brace_count - 1) (i + 1))
      else scan_braces cs brace_count (i + 1))"

definition brace_span :: "string \<Rightarrow> string" where
  "brace_span response =
     (if prefix ''{'' response then response
      else
        (case py_find ''{'' response 0 of
           None \<Rightarrow> response
         | Some start \<Rightarrow>
             (let end = (case scan_braces (drop start response) 0 0 of
                           None \<Rightarrow> start
                         | Some k \<Rightarrow> start + k)
              in slice response start end)))"

definition clean_response :: "string \<Rightarrow> string" where
  "clean_response raw = strip (brace_span (extract_fence (strip raw)))"

text \<open>
  Lines 157 to 166. \<^verbatim>\<open>json.loads\<close> is the parameter \<open>json_loads\<close>: \<open>Inl\<close> the text
  of the \<^verbatim>\<open>JSONDecodeError\<close>, \<open>Inr\<close> the parsed document.
\<close>

definition parse_cleaned :: "(string \<Rightarrow> string + 'doc) \<Rightarrow> string \<Rightarrow> exn + 'doc" where
  "parse_cleaned json_loads raw =
     (let response = clean_response raw in
      if response = [] then Inl (LLMException ''Empty response after cleaning'')
      else
        (case json_loads response of
           Inl msg \<Rightarrow> Inl (LLMException (''Invalid JSON response: '' @ msg))
         | Inr doc \<Rightarrow> Inr doc))"

declare retry_loop.simps [simp del]

definition calls :: "event list \<Rightarrow> nat" where
  "calls trace = length (filter (\<lambda>ev. case ev of Call _ \<Rightarrow> True | Sleep _ \<Rightarrow> False) trace)"

subsection \<open>The extraction as the specification words it\<close>

text \<open>
  "If a fenced json block exists, take its contents; else if any fenced block exists, take
  its contents; else locate the first opening brace and scan forward tracking brace depth
  to find its matching brace, taking that span. Trim whitespace at each step."
\<close>

definition fenced :: "string \<Rightarrow> string \<Rightarrow> string option" where
  "fenced marker response =
     (case py_find marker response 0 of
        None \<Rightarrow> None
      | Some k \<Rightarrow>
          (case py_find ''```'' response (k + length marker) of
             None \<Rightarrow> None
           | Some e \<Rightarrow> Some (slice response (k + length marker) e)))"

definition first_brace_span :: "string \<Rightarrow> string" where
  "first_brace_span response =
     (case py_find ''{'' response 0 of
        None \<Rightarrow> response
      | Some start \<Rightarrow>
          (case scan_braces (drop start response) 0 0 of
             None \<Rightarrow> response
           | Some k \<Rightarrow> slice response start (start + k)))"

definition spec_extract :: "string \<Rightarrow> string" where
  "spec_extract raw =
     (let response = strip raw in
      case fenced ''```json'' response of
        Some contents \<Rightarrow> strip contents
      | None \<Rightarrow>
          (case fenced ''```'' response of
             Some contents \<Rightarrow> strip contents
           | None \<Rightarrow> strip (first_brace_span response)))"

text \<open>
  Brace depth of a text: opening braces minus closing braces. A text is nested when its
  depth is 0 and no prefix of it closes more braces than it has opened.
\<close>

fun depth :: "string \<Rightarrow> int" where
  "depth [] = 0"
| "depth (c # cs) =
     (if c = CHR ''{'' then 1 else if c = CHR ''}'' then - 1 else 0) + depth cs"

definition nested :: "string \<Rightarrow> bool" where
  "nested body = (depth body = 0 \<and> list_all (\<lambda>n. 0 \<le> depth (take n body)) [0..<Suc (length body)])"

subsection \<open>\<^verbatim>\<open>generate_json\<close> and the caller's message objects\<close>




fun dict_set :: "'k \<Rightarrow> 'v \<Rightarrow> ('k \<times> 'v) list \<Rightarrow> ('k \<times> 'v) list" where
  "dict_set k v [] = [(k, v)]"
| "dict_set k v ((k', v') # d) = (if k' = k then (k, v) # d else (k', v') # dict_set k v d)"







section \<open>Generated documents and Python's dynamic operations on them\<close>

text \<open>
  What \<^verbatim>\<open>json.loads\<close> returns: \<^verbatim>\<open>None\<close>, a bool, a number, a string, a list or a dict
  (an association list in insertion order). \<open>JNum r\<close> is a Python number, an int or a
  finite float, whose exact value is \<open>r\<close>. The operations are Python's, with the
  exception the interpreter raises where the value has the wrong type.
\<close>

datatype json =
    JNull
  | JBool bool
  | JNum rat
  | JStr string
  | JArr "json list"
  | JObj "(string \<times> json) list"

fun truthy :: "json \<Rightarrow> bool" where
  "truthy JNull = False"
| "truthy (JBool b) = b"
| "truthy (JNum r) = (r \<noteq> 0)"
| "truthy (JStr s) = (s \<noteq> [])"
| "truthy (JArr xs) = (xs \<noteq> [])"
| "truthy (JObj d) = (d \<noteq> [])"

text \<open>\<^verbatim>\<open>key in x\<close>\<close>

fun py_in :: "string \<Rightarrow> json \<Rightarrow> exn + bool" where
  "py_in key (JObj d) = Inr (key \<in> set (map fst d))"
| "py_in key (JArr xs) = Inr (JStr key \<in> set xs)"
| "py_in key (JStr s) = Inr (contains key s)"
| "py_in key _ = Inl TypeError"

text \<open>\<^verbatim>\<open>x[key]\<close> with a string key\<close>

fun getitem :: "json \<Rightarrow> string \<Rightarrow> exn + json" where
  "getitem (JObj d) key = (case map_of d key of None \<Rightarrow> Inl (KeyError key) | Some v \<Rightarrow> Inr v)"
| "getitem _ key = Inl TypeError"

text \<open>\<^verbatim>\<open>x.get(key)\<close>\<close>

fun py_get :: "json \<Rightarrow> string \<Rightarrow> exn + json option" where
  "py_get (JObj d) key = Inr (map_of d key)"
| "py_get _ key = Inl AttributeError"

text \<open>\<^verbatim>\<open>x.get(key, default)\<close>\<close>

definition get_default :: "json \<Rightarrow> string \<Rightarrow> json \<Rightarrow> exn + json" where
  "get_default x key dflt =
     (case py_get x key of
        Inl e \<Rightarrow> Inl e
      | Inr None \<Rightarrow> Inr dflt
      | Inr (Some v) \<Rightarrow> Inr v)"

text \<open>\<^verbatim>\<open>x[key] = v\<close>\<close>

fun setitem :: "json \<Rightarrow> string \<Rightarrow> json \<Rightarrow> exn + json" where
  "setitem (JObj d) key v = Inr (JObj (dict_set key v d))"
| "setitem _ key v = Inl TypeError"

text \<open>\<^verbatim>\<open>for v in x\<close>: the elements of a list, the keys of a dict, the characters of a string\<close>

fun py_iter :: "json \<Rightarrow> exn + json list" where
  "py_iter (JArr xs) = Inr xs"
| "py_iter (JObj d) = Inr (map (\<lambda>kv. JStr (fst kv)) d)"
| "py_iter (JStr s) = Inr (map (\<lambda>c. JStr [c]) s)"
| "py_iter _ = Inl TypeError"

fun py_len :: "json \<Rightarrow> exn + nat" where
  "py_len (JArr xs) = Inr (length xs)"
| "py_len (JObj d) = Inr (length d)"
| "py_len (JStr s) = Inr (length s)"
| "py_len _ = Inl TypeError"

text \<open>The value of an operand of \<^verbatim>\<open>+\<close> or \<^verbatim>\<open>>=\<close> with a number: a bool counts as 0 or 1.\<close>

fun py_num :: "json \<Rightarrow> exn + rat" where
  "py_num (JNum r) = Inr r"
| "py_num (JBool b) = Inr (if b then 1 else 0)"
| "py_num _ = Inl TypeError"

text \<open>
  The float literals of the code denote binary64 values: \<^verbatim>\<open>0.8\<close> is
  \<open>3602879701896397 / 2^52\<close> and \<^verbatim>\<open>0.85\<close> is \<open>7656119366529843 / 2^53\<close>.
  Comparisons of Python numbers are exact.
\<close>

definition float_0_8 :: rat where
  "float_0_8 = 3602879701896397 / 4503599627370496"

definition float_0_85 :: rat where
  "float_0_85 = 7656119366529843 / 9007199254740992"

text \<open>
  The format specification \<^verbatim>\<open>:.2f\<close> applied to a value: \<open>None\<close> when it formats, the
  exception otherwise.
\<close>

fun format_2f :: "json \<Rightarrow> exn option" where
  "format_2f (JNum r) = None"
| "format_2f (JBool b) = None"
| "format_2f (JStr s) =
     Some (ValueError (''Unknown format code '' @ [CHR 0x27] @ ''f'' @ [CHR 0x27] @
                       '' for object of type '' @ [CHR 0x27] @ ''str'' @ [CHR 0x27]))"
| "format_2f _ = Some TypeError"

section \<open>Workflow state: \<^verbatim>\<open>app/workflow/state.py\<close>, \<^verbatim>\<open>app/agents/base.py\<close>\<close>

record log_entry =
  agent :: string
  action :: string
  entry_iteration :: int
  details :: json

record WorkflowState =
  topic :: string
  user_context :: "string option"
  experience_level :: string
  research_findings :: json
  draft_curriculum :: json
  expert_feedback :: json
  quality_review :: json
  iteration :: int
  approved :: bool
  final_output :: "json option"
  started_at :: nat
  completed_at :: "nat option"
  errors :: "string list"
  agent_logs :: "log_entry list"

text \<open>
  The field \<open>approved\<close> holds the truth value of the Python object stored under the key
  (every reader of the key only tests it). \<open>user_context\<close> is the key \<^verbatim>\<open>context\<close>.
  Time stamps are numbers taken from the environment.
\<close>

definition create_initial_state :: "nat \<Rightarrow> string \<Rightarrow> string option \<Rightarrow> string \<Rightarrow> WorkflowState" where
  "create_initial_state utcnow topic' context' experience_level' =
     \<lparr> topic = topic', user_context = context', experience_level = experience_level',
       research_findings = JObj [], draft_curriculum = JObj [], expert_feedback = JObj [],
       quality_review = JObj [], iteration = 0, approved = False, final_output = None,
       started_at = utcnow, completed_at = None, errors = [], agent_logs = [] \<rparr>"

definition log_action :: "string \<Rightarrow> WorkflowState \<Rightarrow> string \<Rightarrow> json \<Rightarrow> WorkflowState" where
  "log_action name state action' details' =
     state\<lparr>agent_logs := agent_logs state @
       [\<lparr> agent = name, action = action', entry_iteration = iteration state,
          details = details' \<rparr>]\<rparr>"

definition add_error :: "string \<Rightarrow> WorkflowState \<Rightarrow> string \<Rightarrow> WorkflowState" where
  "add_error name state error =
     state\<lparr>errors := errors state @ [''['' @ name @ ''] '' @ error]\<rparr>"

text \<open>
  The environment of a run. \<open>llm name i\<close> is what \<^verbatim>\<open>generate_json\<close> does for the stage
  \<open>name\<close> when the iteration counter is \<open>i\<close> (each stage calls it at most once per value of
  the counter): the parsed document or the exception. \<open>search\<close> and
  \<open>search_documentation\<close> give the result list of the \<open>n\<close>-th call of the search client
  (both catch every error of the provider and return a list). \<open>slugify\<close> is the
  library function, \<open>py_str\<close> is Python's \<^verbatim>\<open>str()\<close> on a document value, and
  \<open>builtin_msg\<close> the interpreter's text of its own exceptions.

  Floating-point arithmetic is the interpreter's and is taken from the environment as
  well, so that nothing is assumed about its rounding: \<open>py_mean values\<close> is what
  \<^verbatim>\<open>sum(values) / len(values)\<close> evaluates to, the float or the exception
  (\<^verbatim>\<open>TypeError\<close> for a value that is not a number, \<^verbatim>\<open>ZeroDivisionError\<close> for no
  values, \<^verbatim>\<open>OverflowError\<close>), and \<open>py_round2 x\<close> is what \<^verbatim>\<open>round(x, 2)\<close>
  evaluates to.
\<close>

record search_result =
  title :: string
  url :: string
  snippet :: string

record world =
  llm :: "string \<Rightarrow> int \<Rightarrow> exn + json"
  search :: "nat \<Rightarrow> search_result list"
  search_documentation :: "nat \<Rightarrow> search_result list"
  slugify :: "json \<Rightarrow> exn + string"
  py_str :: "json \<Rightarrow> string"
  builtin_msg :: "exn \<Rightarrow> string"
  py_mean :: "json list \<Rightarrow> exn + rat"
  py_round2 :: "rat \<Rightarrow> exn + rat"
  utcnow :: nat

definition str_exn :: "world \<Rightarrow> exn \<Rightarrow> string" where
  "str_exn w e = (case e of ValueError m \<Rightarrow> m | LLMException m \<Rightarrow> m | _ \<Rightarrow> builtin_msg w e)"

text \<open>The loop \<^verbatim>\<open>for key in required_keys: if key not in response: raise ValueError(...)\<close>\<close>

fun require_keys :: "string \<Rightarrow> string list \<Rightarrow> json \<Rightarrow> exn option" where
  "require_keys what [] response = None"
| "require_keys what (key # keys) response =
     (case py_in key response of
        Inl e \<Rightarrow> Some e
      | Inr present \<Rightarrow>
          if \<not> present
          then Some (ValueError (''Missing required key in '' @ what @ '': '' @ key))
          else require_keys what keys response)"

section \<open>Configuration: \<^verbatim>\<open>app/config.py\<close>\<close>

record settings =
  MAX_ITERATIONS :: int
  QUALITY_THRESHOLD :: rat

definition default_settings :: settings where
  "default_settings = \<lparr> MAX_ITERATIONS = 2, QUALITY_THRESHOLD = float_0_85 \<rparr>"

section \<open>Quality Gate: \<^verbatim>\<open>app/agents/quality.py\<close>\<close>

text \<open>Lines 130 to 133: the average, when \<^verbatim>\<open>scores\<close> is a dict.\<close>

definition average_scores :: "world \<Rightarrow> json \<Rightarrow> json \<Rightarrow> exn + json" where
  "average_scores w response scores =
     (case scores of
        JObj d \<Rightarrow>
          (case py_mean w (map snd d) of
             Inl e \<Rightarrow> Inl e
           | Inr avg_score \<Rightarrow>
               (case py_round2 w avg_score of
                  Inl e \<Rightarrow> Inl e
                | Inr rounded \<Rightarrow> setitem response ''score'' (JNum rounded)))
      | _ \<Rightarrow> Inr response)"

text \<open>\<^verbatim>\<open>all(score >= 0.8 for score in values)\<close>, which stops at the first failing score.\<close>

fun all_at_least :: "json list \<Rightarrow> exn + bool" where
  "all_at_least [] = Inr True"
| "all_at_least (score # rest) =
     (case py_num score of
        Inl e \<Rightarrow> Inl e
      | Inr r \<Rightarrow> if float_0_8 \<le> r then all_at_least rest else Inr False)"

text \<open>
  Lines 136 to 140. Python's \<^verbatim>\<open>and\<close> yields its first falsy operand, so the value is
  the stage's own \<^verbatim>\<open>approved\<close> when that is falsy, and a bool otherwise.
\<close>

definition determine_approval :: "rat \<Rightarrow> json \<Rightarrow> json \<Rightarrow> exn + json" where
  "determine_approval quality_threshold response scores =
     (case getitem response ''approved'' of
        Inl e \<Rightarrow> Inl e
      | Inr reported \<Rightarrow>
          if \<not> truthy reported then Inr reported
          else
            (case getitem response ''score'' of
               Inl e \<Rightarrow> Inl e
             | Inr score \<Rightarrow>
                 (case py_num score of
                    Inl e \<Rightarrow> Inl e
                  | Inr r \<Rightarrow>
                      if \<not> quality_threshold \<le> r then Inr (JBool False)
                      else
                        (case scores of
                           JObj d \<Rightarrow>
                             (case all_at_least (map snd d) of
                                Inl e \<Rightarrow> Inl e
                              | Inr b \<Rightarrow> Inr (JBool b))
                         | _ \<Rightarrow> Inl AttributeError))))"

text \<open>
  The body of the \<^verbatim>\<open>try\<close> of \<^verbatim>\<open>QualityAgent.run\<close>: the state when the body ends, and
  the exception if one was raised. Building the prompt cannot raise.
\<close>

definition quality_try :: "world \<Rightarrow> settings \<Rightarrow> WorkflowState \<Rightarrow> WorkflowState \<times> exn option" where
  "quality_try w cfg state =
     (case llm w ''QualityAgent'' (iteration state) of
        Inl e \<Rightarrow> (state, Some e)
      | Inr response \<Rightarrow>
     (case require_keys ''quality review'' [''approved'', ''score'', ''scores'', ''violations'']
             response of
        Some e \<Rightarrow> (state, Some e)
      | None \<Rightarrow>
     (case getitem response ''scores'' of
        Inl e \<Rightarrow> (state, Some e)
      | Inr scores \<Rightarrow>
     (case average_scores w response scores of
        Inl e \<Rightarrow> (state, Some e)
      | Inr response1 \<Rightarrow>
     (case determine_approval (QUALITY_THRESHOLD cfg) response1 scores of
        Inl e \<Rightarrow> (state, Some e)
      | Inr approved' \<Rightarrow>
     (case setitem response1 ''approved'' approved' of
        Inl e \<Rightarrow> (state, Some e)
      | Inr response2 \<Rightarrow>
     (let state1 = state\<lparr>quality_review := response2, approved := truthy approved'\<rparr> in
      case get_default response2 ''violations'' (JArr []) of
        Inl e \<Rightarrow> (state1, Some e)
      | Inr violations \<Rightarrow>
     (case py_len violations of
        Inl e \<Rightarrow> (state1, Some e)
      | Inr violation_count \<Rightarrow>
     (case getitem response2 ''score'' of
        Inl e \<Rightarrow> (state1, Some e)
      | Inr score \<Rightarrow>
     (let state2 = log_action ''QualityAgent'' state1 ''Quality review completed''
                     (JObj [(''approved'', approved'), (''score'', score),
                            (''violations'', JNum (of_nat violation_count)),
                            (''iteration'', JNum (of_int (iteration state1)))]) in
      case format_2f score of
        Some e \<Rightarrow> (state2, Some e)
      | None \<Rightarrow>
          if \<not> truthy approved' \<and> 5 \<le> iteration state2
          then (state2\<lparr>approved := True\<rparr>, None)
          else (state2, None)))))))))))"

definition quality_run :: "world \<Rightarrow> settings \<Rightarrow> WorkflowState \<Rightarrow> WorkflowState" where
  "quality_run w cfg state =
     (let state0 = log_action ''QualityAgent'' state ''Starting quality review'' (JObj []) in
      case quality_try w cfg state0 of
        (state1, None) \<Rightarrow> state1
      | (state1, Some e) \<Rightarrow>
          add_error ''QualityAgent'' state1 (''Quality review failed: '' @ str_exn w e))"

section \<open>Orchestrator: \<^verbatim>\<open>app/workflow/graph.py\<close>\<close>

definition should_continue :: "settings \<Rightarrow> WorkflowState \<Rightarrow> string" where
  "should_continue cfg state =
     (if approved state then ''finalize''
      else if MAX_ITERATIONS cfg \<le> iteration state then ''finalize''
      else ''continue'')"

definition finalize_node :: "world \<Rightarrow> WorkflowState \<Rightarrow> WorkflowState" where
  "finalize_node w state =
     (let state1 = state\<lparr>completed_at := Some (utcnow w)\<rparr> in
      if approved state1 \<and> truthy (draft_curriculum state1)
      then state1\<lparr>final_output := Some (draft_curriculum state1)\<rparr>
      else state1\<lparr>final_output := Some (draft_curriculum state1)\<rparr>)"

section \<open>Example inputs\<close>

text \<open>
  An environment whose generation service returns the same document to every stage, whose
  searches find nothing, and whose arithmetic is exact: the mean is computed without
  rounding and \<^verbatim>\<open>round(x, 2)\<close> gives the exact hundredth, a tie going to the even one.
\<close>

fun numbers :: "json list \<Rightarrow> exn + rat list" where
  "numbers [] = Inr []"
| "numbers (v # vs) =
     (case py_num v of
        Inl e \<Rightarrow> Inl e
      | Inr r \<Rightarrow> (case numbers vs of Inl e \<Rightarrow> Inl e | Inr rs \<Rightarrow> Inr (r # rs)))"

definition exact_mean :: "json list \<Rightarrow> exn + rat" where
  "exact_mean values =
     (case numbers values of
        Inl e \<Rightarrow> Inl e
      | Inr rs \<Rightarrow>
          if rs = [] then Inl ZeroDivisionError
          else Inr (sum_list rs / of_nat (length rs)))"

definition round_half_even :: "rat \<Rightarrow> int" where
  "round_half_even x =
     (let f = \<lfloor>x\<rfloor>; d = x - of_int f in
      if d < 1 / 2 then f else if 1 / 2 < d then f + 1 else if even f then f else f + 1)"

definition round_hundredth :: "rat \<Rightarrow> rat" where
  "round_hundredth x = of_int (round_half_even (x * 100)) / 100"

definition example_world :: "json \<Rightarrow> world" where
  "example_world response =
     \<lparr> llm = (\<lambda>name i. Inr response), search = (\<lambda>n. []), search_documentation = (\<lambda>n. []),
       slugify = (\<lambda>j. case j of JStr s \<Rightarrow> Inr s | _ \<Rightarrow> Inl TypeError),
       py_str = (\<lambda>j. ''None''), builtin_msg = (\<lambda>e. ''''),
       py_mean = exact_mean, py_round2 = (\<lambda>x. Inr (round_hundredth x)), utcnow = 0 \<rparr>"


definition low_score_review :: json where
  "low_score_review =
     JObj [(''approved'', JBool True), (''score'', JNum (9 / 10)),
           (''scores'', JObj [(''no_hand_holding'', JNum (79 / 100)),
                              (''no_repetition'', JNum (99 / 100))]),
           (''violations'', JArr [])]"

section \<open>The approval rule, as specified and as computed\<close>


text \<open>
  What lines 136 to 140 compute: the threshold is compared with the stored score, which
  line 133 has set to the rounded mean.
\<close>

definition code_approved :: "rat \<Rightarrow> bool \<Rightarrow> rat \<Rightarrow> rat list \<Rightarrow> bool" where
  "code_approved threshold reported stored_score sub_scores =
     (reported \<and> threshold \<le> stored_score \<and> list_all (\<lambda>r. float_0_8 \<le> r) sub_scores)"

section \<open>Structuring: \<^verbatim>\<open>app/agents/curriculum.py\<close>\<close>

text \<open>
  Lines 131 to 143 format the previous review's issues into the prompt. The text is a
  collaborator detail; what matters is whether the formatting raises.
\<close>

fun format_issues :: "json list \<Rightarrow> exn option" where
  "format_issues [] = None"
| "format_issues (issue # issues) =
     (case getitem issue ''severity'' of
        Inl e \<Rightarrow> Some e
      | Inr (JStr severity) \<Rightarrow>
          (case getitem issue ''issue'' of
             Inl e \<Rightarrow> Some e
           | Inr description \<Rightarrow> format_issues issues)
      | Inr _ \<Rightarrow> Some AttributeError)"

definition format_feedback :: "int \<Rightarrow> json \<Rightarrow> exn option" where
  "format_feedback iteration' feedback =
     (if 1 < iteration' \<and> truthy feedback then
        (case py_get feedback ''issues'' of
           Inl e \<Rightarrow> Some e
         | Inr None \<Rightarrow> None
         | Inr (Some issues) \<Rightarrow>
             if truthy issues then
               (case py_iter issues of Inl e \<Rightarrow> Some e | Inr xs \<Rightarrow> format_issues xs)
             else None)
      else None)"

text \<open>
  Lines 178 to 182. The \<^verbatim>\<open>raise ValueError(f"Phase {phase.get('id')} has no tasks")\<close>
  evaluates \<^verbatim>\<open>phase.get\<close> first, which itself raises when the phase is not a dict.
\<close>

definition no_tasks_error :: "world \<Rightarrow> json \<Rightarrow> exn" where
  "no_tasks_error w phase =
     (case py_get phase ''id'' of
        Inl e \<Rightarrow> e
      | Inr ident \<Rightarrow>
          ValueError (''Phase '' @ py_str w (case ident of None \<Rightarrow> JNull | Some v \<Rightarrow> v) @
                      '' has no tasks''))"

fun count_tasks :: "world \<Rightarrow> json list \<Rightarrow> nat \<Rightarrow> exn + nat" where
  "count_tasks w [] total_tasks = Inr total_tasks"
| "count_tasks w (phase # phases) total_tasks =
     (case py_in ''tasks'' phase of
        Inl e \<Rightarrow> Inl e
      | Inr present \<Rightarrow>
          if \<not> present then Inl (no_tasks_error w phase)
          else
            (case getitem phase ''tasks'' of
               Inl e \<Rightarrow> Inl e
             | Inr tasks \<Rightarrow>
                 if \<not> truthy tasks then Inl (no_tasks_error w phase)
                 else
                   (case py_len tasks of
                      Inl e \<Rightarrow> Inl e
                    | Inr n \<Rightarrow> count_tasks w phases (total_tasks + n))))"

subsection \<open>\<^verbatim>\<open>_enrich_resources_with_search\<close>\<close>

text \<open>
  The method mutates the task dicts of the curriculum in place and swallows every
  exception: the model returns the curriculum as it stands when the method ends.
  First loop (lines 224 to 228): the titles are put into a set, which raises for a task
  that is not a dict and for a title that is a list or a dict.
\<close>

fun hashable :: "json \<Rightarrow> bool" where
  "hashable (JArr xs) = False"
| "hashable (JObj d) = False"
| "hashable _ = True"

fun collect_titles :: "json list \<Rightarrow> exn option" where
  "collect_titles [] = None"
| "collect_titles (task # tasks) =
     (case get_default task ''title'' (JStr []) of
        Inl e \<Rightarrow> Some e
      | Inr task_title \<Rightarrow> if hashable task_title then collect_titles tasks else Some TypeError)"

fun collect_concepts :: "json list \<Rightarrow> exn option" where
  "collect_concepts [] = None"
| "collect_concepts (phase # phases) =
     (case get_default phase ''tasks'' (JArr []) of
        Inl e \<Rightarrow> Some e
      | Inr ts \<Rightarrow>
          (case py_iter ts of
             Inl e \<Rightarrow> Some e
           | Inr tasks \<Rightarrow>
               (case collect_titles tasks of
                  Some e \<Rightarrow> Some e
                | None \<Rightarrow> collect_concepts phases)))"

text \<open>Lines 251 to 262, for one task and the results of its search.\<close>

definition new_resource :: "search_result \<Rightarrow> json" where
  "new_resource result =
     JObj [(''title'', JStr (title result)), (''url'', JStr (url result)),
           (''type'', JStr ''documentation''),
           (''description'', JStr (take 100 (snippet result)))]"

fun any_url :: "string \<Rightarrow> json list \<Rightarrow> exn + bool" where
  "any_url u [] = Inr False"
| "any_url u (r # rs) =
     (case py_get r ''url'' of
        Inl e \<Rightarrow> Inl e
      | Inr v \<Rightarrow> if v = Some (JStr u) then Inr True else any_url u rs)"

definition url_present :: "string \<Rightarrow> json \<Rightarrow> exn + bool" where
  "url_present u current_resources =
     (case py_iter current_resources of Inl e \<Rightarrow> Inl e | Inr rs \<Rightarrow> any_url u rs)"

text \<open>The list after the appends, and the exception if one was raised on the way.\<close>

fun add_results :: "search_result list \<Rightarrow> json \<Rightarrow> json \<times> exn option" where
  "add_results [] current_resources = (current_resources, None)"
| "add_results (result # results) current_resources =
     (case url_present (url result) current_resources of
        Inl e \<Rightarrow> (current_resources, Some e)
      | Inr True \<Rightarrow> add_results results current_resources
      | Inr False \<Rightarrow>
          (case current_resources of
             JArr rs \<Rightarrow> add_results results (JArr (rs @ [new_resource result]))
           | _ \<Rightarrow> (current_resources, Some AttributeError)))"

text \<open>\<^verbatim>\<open>current_resources[:5]\<close>\<close>

fun first_five :: "json \<Rightarrow> exn + json" where
  "first_five (JArr rs) = Inr (JArr (take 5 rs))"
| "first_five (JStr s) = Inr (JStr (take 5 s))"
| "first_five _ = Inl TypeError"

text \<open>
  The task after the inner \<^verbatim>\<open>try\<close>, and whether \<^verbatim>\<open>searched_concepts\<close> was incremented.
  The appends act on the task's own list when the task has the key.
\<close>

definition enrich_task :: "search_result list \<Rightarrow> json \<Rightarrow> json \<times> bool" where
  "enrich_task results task =
     (if results = [] then (task, False)
      else
        (case task of
           JObj d \<Rightarrow>
             (let stored = map_of d ''resources'';
                  current_resources = (case stored of None \<Rightarrow> JArr [] | Some c \<Rightarrow> c);
                  appended = add_results (take 2 results) current_resources;
                  task1 = (case stored of
                             None \<Rightarrow> task
                           | Some c \<Rightarrow> JObj (dict_set ''resources'' (fst appended) d))
              in case snd appended of
                   Some e \<Rightarrow> (task1, False)
                 | None \<Rightarrow>
                     (case first_five (fst appended) of
                        Inl e \<Rightarrow> (task1, False)
                      | Inr five \<Rightarrow> (JObj (dict_set ''resources'' five d), True)))
         | _ \<Rightarrow> (task, False)))"

text \<open>
  Second loop (lines 232 to 267) over the tasks of one phase: the tasks, the counter
  \<^verbatim>\<open>searched_concepts\<close>, the number of searches made so far and the exception that
  leaves the loops, if any.
\<close>

fun enrich_tasks ::
  "world \<Rightarrow> json list \<Rightarrow> nat \<Rightarrow> nat \<Rightarrow> json list \<times> nat \<times> nat \<times> exn option" where
  "enrich_tasks w [] searched_concepts n_calls = ([], searched_concepts, n_calls, None)"
| "enrich_tasks w (task # tasks) searched_concepts n_calls =
     (if 5 \<le> searched_concepts then (task # tasks, searched_concepts, n_calls, None)
      else
        (case get_default task ''title'' (JStr []) of
           Inl e \<Rightarrow> (task # tasks, searched_concepts, n_calls, Some e)
         | Inr task_title \<Rightarrow>
             (let enriched = enrich_task (search_documentation w n_calls) task;
                  rest = enrich_tasks w tasks
                           (if snd enriched then searched_concepts + 1 else searched_concepts)
                           (n_calls + 1)
              in (fst enriched # fst rest, snd rest))))"

fun enrich_phases :: "world \<Rightarrow> json list \<Rightarrow> nat \<Rightarrow> nat \<Rightarrow> json list" where
  "enrich_phases w [] searched_concepts n_calls = []"
| "enrich_phases w (phase # phases) searched_concepts n_calls =
     (case get_default phase ''tasks'' (JArr []) of
        Inl e \<Rightarrow> phase # phases
      | Inr ts \<Rightarrow>
          (case py_iter ts of
             Inl e \<Rightarrow> phase # phases
           | Inr tasks \<Rightarrow>
               (case enrich_tasks w tasks searched_concepts n_calls of
                  (tasks', searched', n_calls', raised) \<Rightarrow>
                    (let phase' = (case (phase, ts) of
                                     (JObj d, JArr old) \<Rightarrow> JObj (dict_set ''tasks'' (JArr tasks') d)
                                   | _ \<Rightarrow> phase)
                     in case raised of
                          Some e \<Rightarrow> phase' # phases
                        | None \<Rightarrow> phase' # enrich_phases w phases searched' n_calls'))))"

definition enrich_resources_with_search :: "world \<Rightarrow> json \<Rightarrow> json" where
  "enrich_resources_with_search w curriculum =
     (case get_default curriculum ''phases'' (JArr []) of
        Inl e \<Rightarrow> curriculum
      | Inr ps \<Rightarrow>
          (case py_iter ps of
             Inl e \<Rightarrow> curriculum
           | Inr phases \<Rightarrow>
               (case collect_concepts phases of
                  Some e \<Rightarrow> curriculum
                | None \<Rightarrow>
                    (case (curriculum, ps) of
                       (JObj d, JArr old) \<Rightarrow>
                         JObj (dict_set ''phases'' (JArr (enrich_phases w phases 0 0)) d)
                     | _ \<Rightarrow> curriculum))))"

subsection \<open>\<^verbatim>\<open>CurriculumAgent.run\<close>\<close>

text \<open>
  Lines 168 to 185: the required keys, the slug, the check that every phase has tasks and
  the recomputed count. The result is the document as changed and the count.
\<close>

definition validate_curriculum :: "world \<Rightarrow> json \<Rightarrow> exn + json \<times> nat" where
  "validate_curriculum w response =
     (case require_keys ''curriculum''
             [''id'', ''title'', ''phases'', ''total_tasks'', ''estimated_hours''] response of
        Some e \<Rightarrow> Inl e
      | None \<Rightarrow>
     (case getitem response ''id'' of
        Inl e \<Rightarrow> Inl e
      | Inr ident \<Rightarrow>
     (case slugify w ident of
        Inl e \<Rightarrow> Inl e
      | Inr slug \<Rightarrow>
     (case setitem response ''id'' (JStr slug) of
        Inl e \<Rightarrow> Inl e
      | Inr response1 \<Rightarrow>
     (case getitem response1 ''phases'' of
        Inl e \<Rightarrow> Inl e
      | Inr ps \<Rightarrow>
     (case py_iter ps of
        Inl e \<Rightarrow> Inl e
      | Inr phases \<Rightarrow>
     (case count_tasks w phases 0 of
        Inl e \<Rightarrow> Inl e
      | Inr total_tasks \<Rightarrow>
     (case setitem response1 ''total_tasks'' (JNum (of_nat total_tasks)) of
        Inl e \<Rightarrow> Inl e
      | Inr response2 \<Rightarrow> Inr (response2, total_tasks)))))))))"

text \<open>The body of the \<^verbatim>\<open>try\<close> (lines 127 to 205).\<close>

definition curriculum_try :: "world \<Rightarrow> WorkflowState \<Rightarrow> WorkflowState \<times> exn option" where
  "curriculum_try w state =
     (case format_feedback (iteration state) (expert_feedback state) of
        Some e \<Rightarrow> (state, Some e)
      | None \<Rightarrow>
     (case llm w ''CurriculumAgent'' (iteration state) of
        Inl e \<Rightarrow> (state, Some e)
      | Inr response \<Rightarrow>
     (case validate_curriculum w response of
        Inl e \<Rightarrow> (state, Some e)
      | Inr (response2, total_tasks) \<Rightarrow>
     (let response3 = enrich_resources_with_search w response2;
          state1 = state\<lparr>draft_curriculum := response3\<rparr>
      in case getitem response3 ''phases'' of
        Inl e \<Rightarrow> (state1, Some e)
      | Inr ps3 \<Rightarrow>
     (case py_len ps3 of
        Inl e \<Rightarrow> (state1, Some e)
      | Inr n_phases \<Rightarrow>
     (case getitem response3 ''estimated_hours'' of
        Inl e \<Rightarrow> (state1, Some e)
      | Inr hours \<Rightarrow>
          (log_action ''CurriculumAgent'' state1 ''Curriculum design completed''
             (JObj [(''iteration'', JNum (of_int (iteration state1))),
                    (''phases'', JNum (of_nat n_phases)),
                    (''total_tasks'', JNum (of_nat total_tasks)),
                    (''estimated_hours'', hours)]),
           None)))))))"

definition curriculum_run :: "world \<Rightarrow> WorkflowState \<Rightarrow> WorkflowState" where
  "curriculum_run w state =
     (let state0 = log_action ''CurriculumAgent'' state ''Starting curriculum design'' (JObj []);
          state1 = state0\<lparr>iteration := iteration state0 + 1\<rparr>
      in case curriculum_try w state1 of
           (state2, None) \<Rightarrow> state2
         | (state2, Some e) \<Rightarrow>
             add_error ''CurriculumAgent'' state2
               (''Curriculum design failed: '' @ str_exn w e))"

section \<open>Technical Review: \<^verbatim>\<open>app/agents/expert.py\<close>\<close>

text \<open>\<^verbatim>\<open>sum(1 for i in issues if i.get("severity") == "high")\<close>\<close>

fun count_high :: "json list \<Rightarrow> exn + nat" where
  "count_high [] = Inr 0"
| "count_high (i # issues) =
     (case py_get i ''severity'' of
        Inl e \<Rightarrow> Inl e
      | Inr severity \<Rightarrow>
          (case count_high issues of
             Inl e \<Rightarrow> Inl e
           | Inr n \<Rightarrow> Inr (if severity = Some (JStr ''high'') then n + 1 else n)))"

definition expert_try :: "world \<Rightarrow> WorkflowState \<Rightarrow> WorkflowState \<times> exn option" where
  "expert_try w state =
     (case llm w ''ExpertAgent'' (iteration state) of
        Inl e \<Rightarrow> (state, Some e)
      | Inr response \<Rightarrow>
     (case require_keys ''expert review'' [''validation'', ''confidence'', ''scores'', ''issues'']
             response of
        Some e \<Rightarrow> (state, Some e)
      | None \<Rightarrow>
     (let state1 = state\<lparr>expert_feedback := response\<rparr> in
      case get_default response ''issues'' (JArr []) of
        Inl e \<Rightarrow> (state1, Some e)
      | Inr issues \<Rightarrow>
     (case py_len issues of
        Inl e \<Rightarrow> (state1, Some e)
      | Inr issue_count \<Rightarrow>
     (case py_iter issues of
        Inl e \<Rightarrow> (state1, Some e)
      | Inr issue_list \<Rightarrow>
     (case count_high issue_list of
        Inl e \<Rightarrow> (state1, Some e)
      | Inr high_severity \<Rightarrow>
     (case getitem response ''validation'' of
        Inl e \<Rightarrow> (state1, Some e)
      | Inr validation \<Rightarrow>
     (case getitem response ''confidence'' of
        Inl e \<Rightarrow> (state1, Some e)
      | Inr confidence \<Rightarrow>
     (let state2 = log_action ''ExpertAgent'' state1 ''Expert validation completed''
                     (JObj [(''validation'', validation), (''confidence'', confidence),
                            (''issues_found'', JNum (of_nat issue_count)),
                            (''high_severity_issues'', JNum (of_nat high_severity))])
      in case format_2f confidence of
           Some e \<Rightarrow> (state2, Some e)
         | None \<Rightarrow> (state2, None))))))))))"

definition expert_run :: "world \<Rightarrow> WorkflowState \<Rightarrow> WorkflowState" where
  "expert_run w state =
     (let state0 = log_action ''ExpertAgent'' state ''Starting expert validation'' (JObj []) in
      case expert_try w state0 of
        (state1, None) \<Rightarrow> state1
      | (state1, Some e) \<Rightarrow>
          add_error ''ExpertAgent'' state1 (''Expert validation failed: '' @ str_exn w e))"

section \<open>Discovery: \<^verbatim>\<open>app/agents/research.py\<close>\<close>

definition search_queries :: "string \<Rightarrow> string list" where
  "search_queries topic' =
     [topic' @ '' what is it used for'',
      topic' @ '' official documentation getting started'',
      topic' @ '' best practices tutorial'']"

text \<open>Lines 144 to 152: results with a non-empty URL not seen before, at most ten.\<close>

fun unique_results :: "search_result list \<Rightarrow> string list \<Rightarrow> search_result list" where
  "unique_results [] seen_urls = []"
| "unique_results (result # results) seen_urls =
     (if url result \<noteq> [] \<and> url result \<notin> set seen_urls
      then result # unique_results results (url result # seen_urls)
      else unique_results results seen_urls)"

definition search_results :: "world \<Rightarrow> search_result list" where
  "search_results w = take 10 (unique_results (search w 0 @ search w 1 @ search w 2) [])"

definition result_json :: "search_result \<Rightarrow> json" where
  "result_json result =
     JObj [(''title'', JStr (title result)), (''url'', JStr (url result)),
           (''snippet'', JStr (snippet result)), (''source'', JStr ''duckduckgo'')]"

definition confidence_of :: "nat \<Rightarrow> string" where
  "confidence_of n = (if 5 \<le> n then ''high'' else if 3 \<le> n then ''medium'' else ''low'')"

text \<open>\<^verbatim>\<open>[key for key in required_keys if key not in response]\<close>\<close>

fun missing_keys :: "string list \<Rightarrow> json \<Rightarrow> exn + string list" where
  "missing_keys [] response = Inr []"
| "missing_keys (key # keys) response =
     (case py_in key response of
        Inl e \<Rightarrow> Inl e
      | Inr present \<Rightarrow>
          (case missing_keys keys response of
             Inl e \<Rightarrow> Inl e
           | Inr rest \<Rightarrow> Inr (if present then rest else key # rest)))"

text \<open>The text of a list of plain strings, as an f-string prints it.\<close>

fun quoted_items :: "string list \<Rightarrow> string" where
  "quoted_items [] = []"
| "quoted_items [k] = [CHR 0x27] @ k @ [CHR 0x27]"
| "quoted_items (k # ks) = [CHR 0x27] @ k @ [CHR 0x27] @ '', '' @ quoted_items ks"

definition str_list :: "string list \<Rightarrow> string" where
  "str_list ks = ''['' @ quoted_items ks @ '']''"

text \<open>
  Lines 183 to 200: the search metadata and the raw results are written into the
  document, then the required keys are checked.
\<close>

definition research_document :: "search_result list \<Rightarrow> string \<Rightarrow> json \<Rightarrow> exn + json" where
  "research_document found topic' response =
     (case setitem response ''search_metadata''
             (JObj [(''sources_found'', JNum (of_nat (length found))),
                    (''confidence'', JStr (confidence_of (length found))),
                    (''search_queries'', JArr (map JStr (search_queries topic')))]) of
        Inl e \<Rightarrow> Inl e
      | Inr response1 \<Rightarrow>
     (case setitem response1 ''_raw_search_results'' (JArr (map result_json found)) of
        Inl e \<Rightarrow> Inl e
      | Inr response2 \<Rightarrow>
     (case missing_keys [''topic_analysis'', ''prerequisites'', ''core_concepts'', ''ecosystem'',
                         ''scope_assessment''] response2 of
        Inl e \<Rightarrow> Inl e
      | Inr missing \<Rightarrow>
          if missing \<noteq> []
          then Inl (ValueError (''Missing required keys: '' @ str_list missing))
          else Inr response2)))"

definition research_try :: "world \<Rightarrow> WorkflowState \<Rightarrow> WorkflowState \<times> exn option" where
  "research_try w state =
     (let found = search_results w in
      case llm w ''ResearchAgent'' (iteration state) of
        Inl e \<Rightarrow> (state, Some e)
      | Inr response \<Rightarrow>
     (case research_document found (topic state) response of
        Inl e \<Rightarrow> (state, Some e)
      | Inr response2 \<Rightarrow>
     (let state1 = state\<lparr>research_findings := response2\<rparr> in
      case getitem response2 ''core_concepts'' of
        Inl e \<Rightarrow> (state1, Some e)
      | Inr core_concepts \<Rightarrow>
     (case py_len core_concepts of
        Inl e \<Rightarrow> (state1, Some e)
      | Inr concepts_found \<Rightarrow>
     (case getitem response2 ''scope_assessment'' of
        Inl e \<Rightarrow> (state1, Some e)
      | Inr scope \<Rightarrow>
     (case getitem scope ''suggested_tasks'' of
        Inl e \<Rightarrow> (state1, Some e)
      | Inr suggested_tasks \<Rightarrow>
     (case getitem scope ''suggested_phases'' of
        Inl e \<Rightarrow> (state1, Some e)
      | Inr suggested_phases \<Rightarrow>
          (log_action ''ResearchAgent'' state1 ''Research completed''
             (JObj [(''concepts_found'', JNum (of_nat concepts_found)),
                    (''suggested_tasks'', suggested_tasks),
                    (''suggested_phases'', suggested_phases),
                    (''search_sources'', JNum (of_nat (length found))),
                    (''confidence'', JStr (confidence_of (length found)))]),
           None))))))))"

definition research_run :: "world \<Rightarrow> WorkflowState \<Rightarrow> WorkflowState" where
  "research_run w state =
     (let state0 = log_action ''ResearchAgent'' state ''Starting research with web search''
                     (JObj []) in
      case research_try w state0 of
        (state1, None) \<Rightarrow> state1
      | (state1, Some e) \<Rightarrow>
          add_error ''ResearchAgent'' state1 (''Research failed: '' @ str_exn w e))"

subsection \<open>The compiled graph\<close>

text \<open>
  \<^verbatim>\<open>create_workflow\<close>: research, then the cycle curriculum, expert, quality, and after
  quality the conditional edge \<^verbatim>\<open>should_continue\<close> back to curriculum or on to finalize.
  The cycle is a recursive function; it terminates because the Structuring stage adds one
  to the counter, the other stages leave it alone, and the edge goes back only while the
  counter is below the ceiling. (The graph library's own limit on the number of steps is
  not modelled: a run that it aborts is not a completed run.)
\<close>

lemma iteration_log_action: "iteration (log_action name state a d) = iteration state"
  by (simp add: log_action_def)

lemma iteration_add_error: "iteration (add_error name state e) = iteration state"
  by (simp add: add_error_def)

lemma iteration_quality_try: "iteration (fst (quality_try w cfg state)) = iteration state"
  by (simp add: quality_try_def Let_def iteration_log_action
      split: sum.splits option.splits)

lemma iteration_quality_run: "iteration (quality_run w cfg state) = iteration state"
proof -
  let ?s0 = "log_action ''QualityAgent'' state ''Starting quality review'' (JObj [])"
  obtain state1 raised where t: "quality_try w cfg ?s0 = (state1, raised)"
    by (cases "quality_try w cfg ?s0")
  have "iteration state1 = iteration state"
    using iteration_quality_try [of w cfg ?s0] by (simp add: t iteration_log_action)
  then show ?thesis
    by (cases raised) (simp_all add: quality_run_def t iteration_add_error)
qed

lemma iteration_expert_try: "iteration (fst (expert_try w state)) = iteration state"
  by (simp add: expert_try_def Let_def iteration_log_action
      split: sum.splits option.splits)

lemma iteration_expert_run: "iteration (expert_run w state) = iteration state"
proof -
  let ?s0 = "log_action ''ExpertAgent'' state ''Starting expert validation'' (JObj [])"
  obtain state1 raised where t: "expert_try w ?s0 = (state1, raised)"
    by (cases "expert_try w ?s0")
  have "iteration state1 = iteration state"
    using iteration_expert_try [of w ?s0] by (simp add: t iteration_log_action)
  then show ?thesis
    by (cases raised) (simp_all add: expert_run_def t iteration_add_error)
qed

lemma iteration_research_try: "iteration (fst (research_try w state)) = iteration state"
  by (simp add: research_try_def Let_def iteration_log_action
      split: sum.splits option.splits)

lemma iteration_research_run: "iteration (research_run w state) = iteration state"
proof -
  let ?s0 = "log_action ''ResearchAgent'' state ''Starting research with web search'' (JObj [])"
  obtain state1 raised where t: "research_try w ?s0 = (state1, raised)"
    by (cases "research_try w ?s0")
  have "iteration state1 = iteration state"
    using iteration_research_try [of w ?s0] by (simp add: t iteration_log_action)
  then show ?thesis
    by (cases raised) (simp_all add: research_run_def t iteration_add_error)
qed

lemma iteration_curriculum_try: "iteration (fst (curriculum_try w state)) = iteration state"
  by (simp add: curriculum_try_def Let_def iteration_log_action
      split: sum.splits option.splits prod.splits)

lemma iteration_curriculum_run: "iteration (curriculum_run w state) = iteration state + 1"
proof -
  let ?s1 = "(log_action ''CurriculumAgent'' state ''Starting curriculum design'' (JObj []))
               \<lparr>iteration := iteration state + 1\<rparr>"
  obtain state2 raised where t: "curriculum_try w ?s1 = (state2, raised)"
    by (cases "curriculum_try w ?s1")
  have "iteration state2 = iteration state + 1"
    using iteration_curriculum_try [of w ?s1] by (simp add: t)
  then show ?thesis
    by (cases raised)
      (simp_all add: curriculum_run_def Let_def iteration_log_action t iteration_add_error)
qed

function workflow_loop :: "world \<Rightarrow> settings \<Rightarrow> WorkflowState \<Rightarrow> WorkflowState" where
  "workflow_loop w cfg state =
     (let state1 = quality_run w cfg (expert_run w (curriculum_run w state)) in
      if should_continue cfg state1 = ''continue'' then workflow_loop w cfg state1
      else finalize_node w state1)"
  by pat_completeness auto
termination
proof (relation "measure (\<lambda>(w, cfg, state). nat (MAX_ITERATIONS cfg - iteration state))")
  show "wf (measure (\<lambda>(w, cfg, state). nat (MAX_ITERATIONS cfg - iteration state)))"
    by simp
next
  fix w :: world and cfg :: settings and state state1 :: WorkflowState
  assume s: "state1 = quality_run w cfg (expert_run w (curriculum_run w state))"
    and c: "should_continue cfg state1 = ''continue''"
  have "iteration state1 = iteration state + 1"
    by (simp add: s iteration_quality_run iteration_expert_run iteration_curriculum_run)
  moreover have "iteration state1 < MAX_ITERATIONS cfg"
    using c by (simp add: should_continue_def split: if_splits)
  ultimately show "((w, cfg, state1), (w, cfg, state)) \<in>
      measure (\<lambda>(w, cfg, state). nat (MAX_ITERATIONS cfg - iteration state))"
    by simp
qed

declare workflow_loop.simps [simp del]

definition ainvoke :: "world \<Rightarrow> settings \<Rightarrow> WorkflowState \<Rightarrow> WorkflowState" where
  "ainvoke w cfg initial_state = workflow_loop w cfg (research_run w initial_state)"

(*DEFS*)

section \<open>Properties of the generation client\<close>

lemma retry_loop_connection:
  assumes "int attempt < max_retries" and "gen attempt = Inl e"
    and "contains ''CONNECTION_ERROR'' e"
  shows "retry_loop extract_delay gen messages max_retries attempt last_error trace =
         retry_loop extract_delay gen messages max_retries (attempt + 1) (Some e)
           (trace @ [Call messages, Sleep (of_int (min (2 ^ attempt) 10))])"
  using assms by (subst retry_loop.simps) simp

lemma retry_loop_exhausted:
  assumes "\<not> int attempt < max_retries"
  shows "retry_loop extract_delay gen messages max_retries attempt last_error trace =
         (trace, Inl (LLMException (''Failed after '' @ str_int max_retries @
                          '' attempts: '' @ str_last_error last_error)))"
  using assms by (subst retry_loop.simps) simp

lemma str_int_3: "str_int 3 = ''3''"
  by (simp add: str_int_def)

text \<open>
  C5. When the three calls of a wrapper with attempt ceiling 3 each fail with a
  \<^verbatim>\<open>CONNECTION_ERROR\<close>, the wrapper calls \<^verbatim>\<open>generate\<close> exactly three times, sleeps
  \<open>min (2^0) 10 = 1\<close> second between the first and the second call and
  \<open>min (2^1) 10 = 2\<close> seconds between the second and the third, and raises an
  \<^verbatim>\<open>LLMException\<close> whose text wraps the last error. (The trace also shows what the
  claim leaves open: the branch sleeps after the last call too, 4 seconds, before the
  raise.)
\<close>

theorem three_connection_failures:
  assumes "gen 0 = Inl e0" and "gen 1 = Inl e1" and "gen 2 = Inl e2"
    and "contains ''CONNECTION_ERROR'' e0" and "contains ''CONNECTION_ERROR'' e1"
    and "contains ''CONNECTION_ERROR'' e2"
  shows "generate_with_retry extract_delay gen messages 3 =
           ([Call messages, Sleep (of_int (min (2 ^ 0) 10)),
             Call messages, Sleep (of_int (min (2 ^ 1) 10)),
             Call messages, Sleep 4],
            Inl (LLMException (''Failed after 3 attempts: '' @ e2)))
         \<and> calls (fst (generate_with_retry extract_delay gen messages 3)) = 3"
proof -
  have "generate_with_retry extract_delay gen messages 3 =
        retry_loop extract_delay gen messages 3 0 None []"
    by (simp add: generate_with_retry_def)
  also have "\<dots> = retry_loop extract_delay gen messages 3 1 (Some e0)
                      [Call messages, Sleep 1]"
    using retry_loop_connection [of 0 3 gen e0 extract_delay messages None "[]"] assms(1,4)
    by simp
  also have "\<dots> = retry_loop extract_delay gen messages 3 2 (Some e1)
                      [Call messages, Sleep 1, Call messages, Sleep 2]"
    using retry_loop_connection [of 1 3 gen e1 extract_delay messages "Some e0"
        "[Call messages, Sleep 1]"] assms(2,5)
    by (simp add: numeral_2_eq_2)
  also have "\<dots> = retry_loop extract_delay gen messages 3 3 (Some e2)
                      [Call messages, Sleep 1, Call messages, Sleep 2, Call messages, Sleep 4]"
    using retry_loop_connection [of 2 3 gen e2 extract_delay messages "Some e1"
        "[Call messages, Sleep 1, Call messages, Sleep 2]"] assms(3,6)
    by (simp add: numeral_3_eq_3 numeral_2_eq_2)
  also have "\<dots> = ([Call messages, Sleep 1, Call messages, Sleep 2, Call messages, Sleep 4],
                      Inl (LLMException (''Failed after 3 attempts: '' @ e2)))"
    by (simp add: retry_loop_exhausted str_int_3 str_last_error_def)
  finally show ?thesis by (simp add: calls_def)
qed

theorem three_connection_failures_witness:
  "generate_with_retry (\<lambda>m. 15) (\<lambda>a. Inl ''CONNECTION_ERROR: refused'') [] 3 =
     ([Call [], Sleep 1, Call [], Sleep 2, Call [], Sleep 4],
      Inl (LLMException ''Failed after 3 attempts: CONNECTION_ERROR: refused''))
   \<and> calls (fst (generate_with_retry (\<lambda>m. 15)
               (\<lambda>a. Inl ''CONNECTION_ERROR: refused'') [] 3)) = 3"
proof -
  have c: "contains ''CONNECTION_ERROR'' ''CONNECTION_ERROR: refused''"
    by code_simp
  have g: "(\<lambda>a::nat. (Inl ''CONNECTION_ERROR: refused'' :: string + string)) n =
           Inl ''CONNECTION_ERROR: refused''" for n
    by simp
  show ?thesis
    using three_connection_failures [OF g g g c c c, of "\<lambda>m. 15" "[]"]
    by (simp add: calls_def)
qed

lemma find_sub_Some:
  "find_sub sub s = Some k \<Longrightarrow>
     k \<le> length s \<and> prefix sub (drop k s) \<and> (\<forall>j < k. \<not> prefix sub (drop j s))"
proof (induction s arbitrary: k)
  case Nil
  then show ?case by (simp split: if_splits)
next
  case (Cons c cs)
  show ?case
  proof (cases "prefix sub (c # cs)")
    case True
    then show ?thesis using Cons.prems by simp
  next
    case False
    then obtain k' where k: "k = Suc k'" and f: "find_sub sub cs = Some k'"
      using Cons.prems by auto
    have "\<forall>j < Suc k'. \<not> prefix sub (drop j (c # cs))"
    proof (intro allI impI)
      fix j assume "j < Suc k'"
      then show "\<not> prefix sub (drop j (c # cs))"
        using Cons.IH [OF f] False by (cases j) auto
    qed
    then show ?thesis
      using Cons.IH [OF f] k by simp
  qed
qed

lemma find_sub_None:
  "find_sub sub s = None \<Longrightarrow> \<forall>j \<le> length s. \<not> prefix sub (drop j s)"
proof (induction s)
  case Nil
  then show ?case by (simp split: if_splits)
next
  case (Cons c cs)
  then have n: "\<not> prefix sub (c # cs)" and f: "find_sub sub cs = None"
    by (auto split: if_splits)
  show ?case
  proof (intro allI impI)
    fix j assume "j \<le> length (c # cs)"
    then show "\<not> prefix sub (drop j (c # cs))"
      using Cons.IH [OF f] n by (cases j) auto
  qed
qed

lemma py_find_Some:
  assumes "py_find sub s start = Some k"
  shows "start \<le> k \<and> k \<le> length s \<and> prefix sub (drop k s)
         \<and> (\<forall>j. start \<le> j \<and> j < k \<longrightarrow> \<not> prefix sub (drop j s))"
proof -
  from assms obtain i where le: "start \<le> length s" and f: "find_sub sub (drop start s) = Some i"
    and k: "k = i + start"
    by (auto simp: py_find_def split: if_splits)
  have a: "i \<le> length s - start" "prefix sub (drop i (drop start s))"
    and b: "\<forall>j < i. \<not> prefix sub (drop j (drop start s))"
    using find_sub_Some [OF f] by auto
  have "\<not> prefix sub (drop j s)" if "start \<le> j" "j < k" for j
  proof -
    have "j - start < i" using that k by simp
    then have "\<not> prefix sub (drop (j - start) (drop start s))" using b by blast
    then show ?thesis using that by simp
  qed
  then show ?thesis
    using a le k by (auto simp: add.commute)
qed

lemma py_find_None:
  assumes "py_find sub s start = None"
  shows "\<forall>j. start \<le> j \<and> j \<le> length s \<longrightarrow> \<not> prefix sub (drop j s)"
proof (cases "length s < start")
  case True
  then show ?thesis by auto
next
  case False
  then have f: "find_sub sub (drop start s) = None"
    using assms by (simp add: py_find_def)
  show ?thesis
  proof (intro allI impI)
    fix j assume j: "start \<le> j \<and> j \<le> length s"
    then have "j - start \<le> length (drop start s)" by auto
    then have "\<not> prefix sub (drop (j - start) (drop start s))"
      using find_sub_None [OF f] by blast
    then show "\<not> prefix sub (drop j s)" using j by simp
  qed
qed

lemma find_sub_char:
  "c \<notin> set pre \<Longrightarrow> find_sub [c] (pre @ c # rest) = Some (length pre)"
  by (induction pre) auto

lemma scan_braces_nested:
  assumes "\<forall>n \<le> length body. 1 \<le> d + depth (take n body)" and "d + depth body = 1"
  shows "scan_braces (body @ CHR ''}'' # post) d i = Some (i + length body + 1)"
  using assms
proof (induction body arbitrary: d i)
  case Nil
  then show ?case by simp
next
  case (Cons c cs)
  have step: "\<forall>n \<le> length cs. 1 \<le> d + depth [c] + depth (take n cs)"
  proof (intro allI impI)
    fix n assume "n \<le> length cs"
    then have "Suc n \<le> length (c # cs)" by simp
    then have "1 \<le> d + depth (take (Suc n) (c # cs))" using Cons.prems(1) by blast
    then show "1 \<le> d + depth [c] + depth (take n cs)" by (simp split: if_splits)
  qed
  have tot: "d + depth [c] + depth cs = 1"
    using Cons.prems(2) by (simp split: if_splits)
  have one: "1 \<le> d + depth [c]"
    using step [rule_format, of 0] by simp
  show ?case
  proof (cases "c = CHR ''{''")
    case True
    then show ?thesis
      using Cons.IH [of "d + 1" "i + 1"] step tot by simp
  next
    case False
    show ?thesis
    proof (cases "c = CHR ''}''")
      case True
      then have "d - 1 \<noteq> 0" using one by simp
      then show ?thesis
        using Cons.IH [of "d - 1" "i + 1"] step tot True by simp
    next
      case False
      then show ?thesis
        using Cons.IH [of d "i + 1"] step tot \<open>c \<noteq> CHR ''{''\<close> by simp
    qed
  qed
qed

lemma brace_span_nested:
  assumes "pre \<noteq> []" and "CHR ''{'' \<notin> set pre" and "nested body"
  shows "brace_span (pre @ ''{'' @ body @ ''}'' @ post) = ''{'' @ body @ ''}''"
proof -
  let ?s = "pre @ ''{'' @ body @ ''}'' @ post"
  have np: "\<not> prefix ''{'' ?s"
    using assms(1,2) by (cases pre) auto
  have f: "py_find ''{'' ?s 0 = Some (length pre)"
    using find_sub_char [OF assms(2), of "body @ ''}'' @ post"] by (simp add: py_find_def)
  have n: "\<forall>n \<le> length body. 1 \<le> 1 + depth (take n body)"
    using assms(3) by (auto simp: nested_def list_all_iff)
  have t: "1 + depth body = 1"
    using assms(3) by (simp add: nested_def)
  have "scan_braces (drop (length pre) ?s) 0 0 = Some (length body + 2)"
    using scan_braces_nested [OF n t, of post 1] by simp
  then show ?thesis
    using np f by (simp add: brace_span_def slice_def)
qed

lemma strip_Nil: "strip [] = []"
  by (simp add: strip_def)

lemma extract_fence_Nil: "extract_fence [] = []"
  by (simp add: extract_fence_def py_find_def)

lemma brace_span_Nil: "brace_span [] = []"
  by (simp add: brace_span_def py_find_def)

lemma fenced_example_cleaned:
  "clean_response ''Here you go:\<newline>```json\<newline>{\"a\":1}\<newline>```'' = ''{\"a\":1}''"
  by code_simp

lemma fenced_example_fence:
  "extract_fence (strip ''Here you go:\<newline>```json\<newline>{\"a\":1}\<newline>```'') = ''{\"a\":1}''"
  by code_simp

lemma brace_example_no_fence:
  "extract_fence (strip ''noise{\"a\":1}tail'') = ''noise{\"a\":1}tail''"
  by code_simp

lemma brace_example_span:
  "brace_span ''noise{\"a\":1}tail'' = ''{\"a\":1}''"
  by code_simp

lemma brace_example_cleaned:
  "clean_response ''noise{\"a\":1}tail'' = ''{\"a\":1}''"
  by code_simp

lemma find_sub_absent: "c \<notin> set s \<Longrightarrow> find_sub [c] s = None"
  by (induction s) auto

lemma brace_span_no_brace: "CHR ''{'' \<notin> set s \<Longrightarrow> brace_span s = s"
  using find_sub_absent [of "CHR ''{''" s]
  by (simp add: brace_span_def py_find_def)

lemma plain_fence_example:
  "clean_response ''```\<newline>[1, 2]\<newline>```'' = ''[1, 2]''"
  by code_simp

lemma json_fence_example:
  "clean_response ''```json\<newline>[1, 2]\<newline>```'' = ''[1, 2]''"
  by code_simp

lemma fence_order_example:
  "clean_response ''```\<newline>[0]\<newline>```\<newline>```json\<newline>[1]\<newline>```'' = ''[1]''"
  by code_simp

lemma nested_braces_example:
  "clean_response ''x {\"a\":{\"b\":1}} y'' = ''{\"a\":{\"b\":1}}''"
  by code_simp

lemma unclosed_brace_example:
  "clean_response ''noise{\"a\":1'' = []"
  by code_simp


text \<open>
  C4, as amended. The extraction trims the text, applies the fence step, applies the
  brace step to what the fence step returns, and trims again.
  \<^item> Fence step: when the text has a \<^verbatim>\<open>```json\<close> marker, the first one, and a \<^verbatim>\<open>```\<close>
    after it, the result is the trimmed text between the two; when it has no
    \<^verbatim>\<open>```json\<close> marker but a \<^verbatim>\<open>```\<close> marker with a second one after it, the result is
    the trimmed text between those; in every other case the text is unchanged. (The
    markers found are the first occurrences from the position searched.)
  \<^item> Brace step: a text that starts with an opening brace, or has none, is unchanged;
    otherwise the text is cut to the span from its first opening brace to the brace that
    brings the depth back to zero, whatever follows.
  \<^item> The text "Here you go:", a json fence holding \<^verbatim>\<open>{"a":1}\<close>, gives \<^verbatim>\<open>{"a":1}\<close>;
    \<^verbatim>\<open>noise{"a":1}tail\<close> gives \<^verbatim>\<open>{"a":1}\<close> by the brace step; fences around \<^verbatim>\<open>[1, 2]\<close>
    give \<^verbatim>\<open>[1, 2]\<close>; a json fence wins over an earlier plain fence; nested braces are
    matched by depth; a brace that is never closed leaves the empty text.
  \<^item> A text that is empty after trimming fails with the \<^verbatim>\<open>LLMException\<close>
    "Empty response after cleaning", whatever the parser would do.
\<close>

theorem extraction_pipeline:
  "clean_response raw = strip (brace_span (extract_fence (strip raw)))
   \<and> (py_find ''```json'' s 0 = Some k \<and> py_find ''```'' s (k + 7) = Some e \<longrightarrow>
        extract_fence s = strip (slice s (k + 7) e))
   \<and> (py_find ''```json'' s 0 = None \<and> py_find ''```'' s 0 = Some k
        \<and> py_find ''```'' s (k + 3) = Some e \<longrightarrow>
        extract_fence s = strip (slice s (k + 3) e))
   \<and> (py_find ''```json'' s 0 = Some k \<and> py_find ''```'' s (k + 7) = None \<longrightarrow>
        extract_fence s = s)
   \<and> (py_find ''```json'' s 0 = None \<and> py_find ''```'' s 0 = Some k
        \<and> py_find ''```'' s (k + 3) = None \<longrightarrow> extract_fence s = s)
   \<and> (py_find ''```json'' s 0 = None \<and> py_find ''```'' s 0 = None \<longrightarrow> extract_fence s = s)
   \<and> (py_find sub s start = Some k \<longrightarrow>
        start \<le> k \<and> k \<le> length s \<and> prefix sub (drop k s)
        \<and> (\<forall>j. start \<le> j \<and> j < k \<longrightarrow> \<not> prefix sub (drop j s)))
   \<and> (py_find sub s start = None \<longrightarrow>
        (\<forall>j. start \<le> j \<and> j \<le> length s \<longrightarrow> \<not> prefix sub (drop j s)))
   \<and> (prefix ''{'' s \<longrightarrow> brace_span s = s)
   \<and> (CHR ''{'' \<notin> set s \<longrightarrow> brace_span s = s)
   \<and> (pre \<noteq> [] \<and> CHR ''{'' \<notin> set pre \<and> nested body \<longrightarrow>
        brace_span (pre @ ''{'' @ body @ ''}'' @ post) = ''{'' @ body @ ''}'')
   \<and> extract_fence (strip ''Here you go:\<newline>```json\<newline>{\"a\":1}\<newline>```'') = ''{\"a\":1}''
   \<and> clean_response ''Here you go:\<newline>```json\<newline>{\"a\":1}\<newline>```'' = ''{\"a\":1}''
   \<and> extract_fence (strip ''noise{\"a\":1}tail'') = ''noise{\"a\":1}tail''
   \<and> brace_span ''noise{\"a\":1}tail'' = ''{\"a\":1}''
   \<and> clean_response ''noise{\"a\":1}tail'' = ''{\"a\":1}''
   \<and> clean_response ''```\<newline>[1, 2]\<newline>```'' = ''[1, 2]''
   \<and> clean_response ''```json\<newline>[1, 2]\<newline>```'' = ''[1, 2]''
   \<and> clean_response ''```\<newline>[0]\<newline>```\<newline>```json\<newline>[1]\<newline>```'' = ''[1]''
   \<and> clean_response ''x {\"a\":{\"b\":1}} y'' = ''{\"a\":{\"b\":1}}''
   \<and> clean_response ''noise{\"a\":1'' = []
   \<and> (json_loads ''{\"a\":1}'' = Inr doc \<longrightarrow>
        parse_cleaned json_loads ''Here you go:\<newline>```json\<newline>{\"a\":1}\<newline>```'' = Inr doc
        \<and> parse_cleaned json_loads ''noise{\"a\":1}tail'' = Inr doc)
   \<and> (strip raw = [] \<longrightarrow>
        parse_cleaned json_loads raw = Inl (LLMException ''Empty response after cleaning''))"
proof -
  have fence: "(py_find ''```json'' s 0 = Some k \<and> py_find ''```'' s (k + 7) = Some e \<longrightarrow>
        extract_fence s = strip (slice s (k + 7) e))
   \<and> (py_find ''```json'' s 0 = None \<and> py_find ''```'' s 0 = Some k
        \<and> py_find ''```'' s (k + 3) = Some e \<longrightarrow>
        extract_fence s = strip (slice s (k + 3) e))
   \<and> (py_find ''```json'' s 0 = Some k \<and> py_find ''```'' s (k + 7) = None \<longrightarrow>
        extract_fence s = s)
   \<and> (py_find ''```json'' s 0 = None \<and> py_find ''```'' s 0 = Some k
        \<and> py_find ''```'' s (k + 3) = None \<longrightarrow> extract_fence s = s)
   \<and> (py_find ''```json'' s 0 = None \<and> py_find ''```'' s 0 = None \<longrightarrow> extract_fence s = s)"
    by (simp add: extract_fence_def Let_def)
  have find: "(py_find sub s start = Some k \<longrightarrow>
        start \<le> k \<and> k \<le> length s \<and> prefix sub (drop k s)
        \<and> (\<forall>j. start \<le> j \<and> j < k \<longrightarrow> \<not> prefix sub (drop j s)))
   \<and> (py_find sub s start = None \<longrightarrow>
        (\<forall>j. start \<le> j \<and> j \<le> length s \<longrightarrow> \<not> prefix sub (drop j s)))"
    using py_find_Some [of sub s start k] py_find_None [of sub s start] by blast
  have brace: "(prefix ''{'' s \<longrightarrow> brace_span s = s)
   \<and> (CHR ''{'' \<notin> set s \<longrightarrow> brace_span s = s)
   \<and> (pre \<noteq> [] \<and> CHR ''{'' \<notin> set pre \<and> nested body \<longrightarrow>
        brace_span (pre @ ''{'' @ body @ ''}'' @ post) = ''{'' @ body @ ''}'')"
    using brace_span_nested [of pre body post] brace_span_no_brace [of s]
    by (simp add: brace_span_def)
  have parse: "json_loads ''{\"a\":1}'' = Inr doc \<longrightarrow>
        parse_cleaned json_loads ''Here you go:\<newline>```json\<newline>{\"a\":1}\<newline>```'' = Inr doc
        \<and> parse_cleaned json_loads ''noise{\"a\":1}tail'' = Inr doc"
    by (simp add: parse_cleaned_def fenced_example_cleaned brace_example_cleaned)
  have empty: "strip raw = [] \<longrightarrow>
      parse_cleaned json_loads raw = Inl (LLMException ''Empty response after cleaning'')"
    by (simp add: parse_cleaned_def clean_response_def strip_Nil extract_fence_Nil
        brace_span_Nil)
  have struct: "clean_response raw = strip (brace_span (extract_fence (strip raw)))"
    by (simp add: clean_response_def)
  show ?thesis
    apply (intro conjI)
    apply (rule struct)
    using fence apply blast
    using fence apply blast
    using fence apply blast
    using fence apply blast
    using fence apply blast
    using find apply blast
    using find apply blast
    using brace apply blast
    using brace apply blast
    using brace apply blast
    apply (rule fenced_example_fence)
    apply (rule fenced_example_cleaned)
    apply (rule brace_example_no_fence)
    apply (rule brace_example_span)
    apply (rule brace_example_cleaned)
    apply (rule plain_fence_example)
    apply (rule json_fence_example)
    apply (rule fence_order_example)
    apply (rule nested_braces_example)
    apply (rule unclosed_brace_example)
    apply (rule parse)
    apply (rule empty)
    done
qed

theorem extraction_pipeline_witness:
  "brace_span ''x {\"a\":{\"b\":1}} y'' = ''{\"a\":{\"b\":1}}''
   \<and> extract_fence ''```\<newline>[1, 2]\<newline>```'' = strip ''\<newline>[1, 2]\<newline>''
   \<and> parse_cleaned (\<lambda>s. Inr s :: string + string) ''noise{\"a\":1}tail'' = Inr ''{\"a\":1}''
   \<and> parse_cleaned (\<lambda>s. Inr s :: string + string) '' \<newline>  ''
       = Inl (LLMException ''Empty response after cleaning'')"
proof -
  have e: "strip '' \<newline>  '' = []"
    by (simp add: strip_def isspace_def)
  have n: "nested ''\"a\":{\"b\":1}''"
    by code_simp
  have p: "''x '' \<noteq> [] \<and> CHR ''{'' \<notin> set ''x ''"
    by simp
  have f1: "py_find ''```json'' ''```\<newline>[1, 2]\<newline>```'' 0 = None"
    by code_simp
  have f2: "py_find ''```'' ''```\<newline>[1, 2]\<newline>```'' 0 = Some 0"
    by code_simp
  have f3: "py_find ''```'' ''```\<newline>[1, 2]\<newline>```'' (0 + 3) = Some 11"
    by code_simp
  have sl: "slice ''```\<newline>[1, 2]\<newline>```'' (0 + 3) 11 = ''\<newline>[1, 2]\<newline>''"
    by code_simp
  note t = extraction_pipeline [where raw = "'' \<newline>  ''"
        and json_loads = "\<lambda>s. Inr s :: string + string" and doc = "''{\"a\":1}''"
        and s = "''```\<newline>[1, 2]\<newline>```''" and k = 0 and e = 11
        and pre = "''x ''" and body = "''\"a\":{\"b\":1}''" and post = "'' y''"
        and sub = "''```''" and start = 0]
  note plain = t [THEN conjunct2, THEN conjunct2, THEN conjunct1]
  note span = t [THEN conjunct2, THEN conjunct2, THEN conjunct2, THEN conjunct2, THEN conjunct2, THEN conjunct2, THEN conjunct2, THEN conjunct2, THEN conjunct2, THEN conjunct2, THEN conjunct1]
  note parsed = t [THEN conjunct2, THEN conjunct2, THEN conjunct2, THEN conjunct2, THEN conjunct2, THEN conjunct2, THEN conjunct2, THEN conjunct2, THEN conjunct2, THEN conjunct2, THEN conjunct2, THEN conjunct2, THEN conjunct2, THEN conjunct2, THEN conjunct2, THEN conjunct2, THEN conjunct2, THEN conjunct2, THEN conjunct2, THEN conjunct2, THEN conjunct2, THEN conjunct1]
  note blank = t [THEN conjunct2, THEN conjunct2, THEN conjunct2, THEN conjunct2, THEN conjunct2, THEN conjunct2, THEN conjunct2, THEN conjunct2, THEN conjunct2, THEN conjunct2, THEN conjunct2, THEN conjunct2, THEN conjunct2, THEN conjunct2, THEN conjunct2, THEN conjunct2, THEN conjunct2, THEN conjunct2, THEN conjunct2, THEN conjunct2, THEN conjunct2, THEN conjunct2]
  have "brace_span (''x '' @ ''{'' @ ''\"a\":{\"b\":1}'' @ ''}'' @ '' y'') = ''{'' @ ''\"a\":{\"b\":1}'' @ ''}''"
    using span p n by blast
  then have r1: "brace_span ''x {\"a\":{\"b\":1}} y'' = ''{\"a\":{\"b\":1}}''"
    by simp
  have "extract_fence ''```\<newline>[1, 2]\<newline>```'' = strip (slice ''```\<newline>[1, 2]\<newline>```'' (0 + 3) 11)"
    using plain f1 f2 f3 by blast
  then have r2: "extract_fence ''```\<newline>[1, 2]\<newline>```'' = strip ''\<newline>[1, 2]\<newline>''"
    using sl by simp
  have r3: "parse_cleaned (\<lambda>s. Inr s :: string + string) ''noise{\"a\":1}tail'' = Inr ''{\"a\":1}''"
    using parsed by blast
  have r4: "parse_cleaned (\<lambda>s. Inr s :: string + string) '' \<newline>  ''
       = Inl (LLMException ''Empty response after cleaning'')"
    using blank e by blast
  show ?thesis
    using r1 r2 r3 r4 by blast
qed

text \<open>
  C4 as stated takes the brace scan as the last alternative ("else") and a fence's
  contents as the result. The code does neither: a text without fence that starts with an
  opening brace is not cut (\<^verbatim>\<open>{"a":1}tail\<close> stays as it is and then fails to parse), and
  the brace step also cuts the contents taken from a fence (a fenced \<^verbatim>\<open>[{"a":1}]\<close>
  becomes \<^verbatim>\<open>{"a":1}\<close>).
\<close>

theorem extraction_order_counterexample:
  "clean_response ''{\"a\":1}tail'' \<noteq> spec_extract ''{\"a\":1}tail''
   \<and> clean_response ''```json\<newline>[{\"a\":1}]\<newline>```''
       \<noteq> spec_extract ''```json\<newline>[{\"a\":1}]\<newline>```''"
proof -
  have "clean_response ''{\"a\":1}tail'' = ''{\"a\":1}tail''"
    by code_simp
  moreover have "spec_extract ''{\"a\":1}tail'' = ''{\"a\":1}''"
    by code_simp
  moreover have "clean_response ''```json\<newline>[{\"a\":1}]\<newline>```'' = ''{\"a\":1}''"
    by code_simp
  moreover have "spec_extract ''```json\<newline>[{\"a\":1}]\<newline>```'' = ''[{\"a\":1}]''"
    by code_simp
  ultimately show ?thesis by simp
qed

section \<open>Properties of the Quality Gate\<close>

lemma map_of_dict_set:
  "map_of (dict_set k v d) k' = (if k' = k then Some v else map_of d k')"
  by (induction d) auto

lemma in_keys_map_of: "map_of d k = Some v \<Longrightarrow> k \<in> fst ` set d"
  by (induction d) (auto split: if_splits)

lemma all_at_least_numbers:
  "map py_num vals = map Inr rs \<Longrightarrow>
   all_at_least vals = Inr (list_all (\<lambda>r. float_0_8 \<le> r) rs)"
proof (induction vals arbitrary: rs)
  case Nil
  then show ?case by simp
next
  case (Cons v vals)
  then obtain r rest where rs: "rs = r # rest" and v: "py_num v = Inr r"
    and rest: "map py_num vals = map Inr rest"
    by (cases rs) auto
  show ?case
    using Cons.IH [OF rest] by (simp add: rs v)
qed

lemma approved_log_action: "approved (log_action name state a d) = approved state"
  by (simp add: log_action_def)

lemma quality_review_log_action:
  "quality_review (log_action name state a d) = quality_review state"
  by (simp add: log_action_def)

lemma quality_try_stored:
  assumes r: "llm w ''QualityAgent'' (iteration state) = Inr (JObj r)"
    and a: "map_of r ''approved'' = Some reported"
    and sc: "map_of r ''score'' = Some declared"
    and ss: "map_of r ''scores'' = Some (JObj d)"
    and vs: "map_of r ''violations'' = Some violations"
    and rs: "map py_num (map snd d) = map Inr rs"
    and m: "py_mean w (map snd d) = Inr avg"
    and ro: "py_round2 w avg = Inr stored"
  shows "\<exists>state' raised. quality_try w cfg state = (state', raised)
           \<and> getitem (quality_review state') ''approved'' =
               Inr (if truthy reported
                    then JBool (code_approved (QUALITY_THRESHOLD cfg) True stored rs)
                    else reported)
           \<and> getitem (quality_review state') ''score'' = Inr (JNum stored)
           \<and> errors state' = errors state
           \<and> approved state' =
               (code_approved (QUALITY_THRESHOLD cfg) (truthy reported) stored rs
                \<or> 5 \<le> iteration state \<and> raised = None)"
proof -
  note keys = in_keys_map_of [OF a] in_keys_map_of [OF sc] in_keys_map_of [OF ss]
      in_keys_map_of [OF vs]
  show ?thesis
    by (cases "py_len violations")
      (simp_all add: quality_try_def r keys a sc ss vs m ro average_scores_def
        determine_approval_def map_of_dict_set all_at_least_numbers [OF rs] get_default_def
        log_action_def code_approved_def Let_def)
qed

lemma errors_add_error: "errors (add_error name state e) = errors state @ [''['' @ name @ ''] '' @ e]"
  by (simp add: add_error_def)

lemma approved_add_error: "approved (add_error name state e) = approved state"
  by (simp add: add_error_def)






text \<open>
  C2 at the default configuration (ceiling 2): the Quality Gate runs at iteration 2, the
  ceiling, with a sub-score of 0.79, and leaves \<open>approved\<close> false: line 164 compares
  the counter with the literal 5, not with \<^verbatim>\<open>MAX_ITERATIONS\<close>.
\<close>

theorem quality_gate_ceiling_not_forced:
  "MAX_ITERATIONS default_settings \<le> 2
   \<and> \<not> approved (quality_run (example_world low_score_review) default_settings
         ((create_initial_state 0 ''graphs'' None ''intermediate'')\<lparr>iteration := 2\<rparr>))"
proof -
  let ?d = "[(''no_hand_holding'', JNum (79 / 100)), (''no_repetition'', JNum (99 / 100))]"
  let ?r = "[(''approved'', JBool True), (''score'', JNum (9 / 10)),
              (''scores'', JObj ?d), (''violations'', JArr [])]"
  let ?start = "(create_initial_state 0 ''graphs'' None ''intermediate'')\<lparr>iteration := 2\<rparr>"
  let ?logged = "log_action ''QualityAgent'' ?start ''Starting quality review'' (JObj [])"
  have h1: "llm (example_world low_score_review) ''QualityAgent'' (iteration ?logged) = Inr (JObj ?r)"
    by (simp add: example_world_def low_score_review_def)
  have h6: "map py_num (map snd ?d) = map Inr [79 / 100, 99 / 100]"
    by simp
  have h7: "py_mean (example_world low_score_review) (map snd ?d) = Inr (89 / 100)"
    by (simp add: example_world_def exact_mean_def)
  have h8: "py_round2 (example_world low_score_review) (89 / 100) = Inr (round_hundredth (89 / 100))"
    by (simp add: example_world_def)
  from quality_try_stored [OF h1 _ _ _ _ h6 h7 h8, of "JBool True" "JNum (9 / 10)" "JArr []"
      default_settings]
  obtain state' raised where t: "quality_try (example_world low_score_review) default_settings ?logged
        = (state', raised)"
    and a: "approved state' =
             (code_approved (QUALITY_THRESHOLD default_settings) (truthy (JBool True))
                (round_hundredth (89 / 100)) [79 / 100, 99 / 100]
              \<or> 5 \<le> iteration ?logged \<and> raised = None)"
    by auto
  have "\<not> code_approved (QUALITY_THRESHOLD default_settings) (truthy (JBool True))
          (round_hundredth (89 / 100)) [79 / 100, 99 / 100]"
    by (simp add: code_approved_def float_0_8_def)
  moreover have "\<not> 5 \<le> iteration ?logged"
    by (simp add: log_action_def)
  ultimately have "\<not> approved (quality_run (example_world low_score_review) default_settings ?start)"
    using a by (cases raised) (simp_all add: quality_run_def Let_def t approved_add_error)
  then show ?thesis
    by (simp add: default_settings_def)
qed

section \<open>Properties of the orchestrator\<close>

lemma iteration_finalize_node: "iteration (finalize_node w state) = iteration state"
  by (simp add: finalize_node_def Let_def)

lemma iteration_cycle:
  "iteration (quality_run w cfg (expert_run w (curriculum_run w state))) = iteration state + 1"
  by (simp add: iteration_quality_run iteration_expert_run iteration_curriculum_run)

lemma workflow_loop_iteration:
  "iteration state < iteration (workflow_loop w cfg state)
   \<and> iteration (workflow_loop w cfg state) \<le> max (iteration state + 1) (MAX_ITERATIONS cfg)"
proof (induction w cfg state rule: workflow_loop.induct)
  case (1 w cfg state)
  let ?s1 = "quality_run w cfg (expert_run w (curriculum_run w state))"
  have i: "iteration ?s1 = iteration state + 1"
    by (rule iteration_cycle)
  show ?case
  proof (cases "should_continue cfg ?s1 = ''continue''")
    case True
    then have lt: "iteration ?s1 < MAX_ITERATIONS cfg"
      by (simp add: should_continue_def split: if_splits)
    have "workflow_loop w cfg state = workflow_loop w cfg ?s1"
      using True by (subst workflow_loop.simps) (simp add: Let_def)
    then show ?thesis
      using "1.IH" [OF refl True] i lt by simp
  next
    case False
    then have "workflow_loop w cfg state = finalize_node w ?s1"
      by (subst workflow_loop.simps) (simp add: Let_def)
    then show ?thesis
      using i by (simp add: iteration_finalize_node)
  qed
qed

lemma ainvoke_initial_iteration:
  "1 \<le> iteration (ainvoke w cfg (create_initial_state now topic' context' level))
   \<and> iteration (ainvoke w cfg (create_initial_state now topic' context' level))
       \<le> max 1 (MAX_ITERATIONS cfg)"
  using workflow_loop_iteration
    [of "research_run w (create_initial_state now topic' context' level)" w cfg]
  by (simp add: ainvoke_def iteration_research_run create_initial_state_def)

text \<open>
  C3, as amended. No node lowers the iteration counter: the state each stage and the
  finalize node returns has a counter at least as large as the one it received, and so has
  the state a whole run returns. A run from the initial state completes with the counter
  at least 1 and at most the larger of 1 and \<^verbatim>\<open>MAX_ITERATIONS\<close>; hence at most
  \<^verbatim>\<open>MAX_ITERATIONS + 1\<close> when the configured ceiling is not negative. And whenever
  \<open>approved\<close> is true the edge out of the Quality Gate is \<^verbatim>\<open>finalize\<close>, never the edge
  back to Structuring.
\<close>

theorem orchestrator_iteration_bound:
  "iteration state \<le> iteration (research_run w state)
   \<and> iteration state \<le> iteration (curriculum_run w state)
   \<and> iteration state \<le> iteration (expert_run w state)
   \<and> iteration state \<le> iteration (quality_run w cfg state)
   \<and> iteration state \<le> iteration (finalize_node w state)
   \<and> iteration state \<le> iteration (ainvoke w cfg state)
   \<and> 1 \<le> iteration (ainvoke w cfg (create_initial_state now topic' context' level))
   \<and> iteration (ainvoke w cfg (create_initial_state now topic' context' level))
       \<le> max 1 (MAX_ITERATIONS cfg)
   \<and> (0 \<le> MAX_ITERATIONS cfg \<longrightarrow>
        iteration (ainvoke w cfg (create_initial_state now topic' context' level))
          \<le> MAX_ITERATIONS cfg + 1)
   \<and> (approved state \<longrightarrow> should_continue cfg state = ''finalize'')"
proof -
  have run: "iteration state \<le> iteration (ainvoke w cfg state)"
    using workflow_loop_iteration [of "research_run w state" w cfg]
    by (simp add: ainvoke_def iteration_research_run)
  note init = ainvoke_initial_iteration [of w cfg now topic' context' level]
  have "0 \<le> MAX_ITERATIONS cfg \<longrightarrow>
        iteration (ainvoke w cfg (create_initial_state now topic' context' level))
          \<le> MAX_ITERATIONS cfg + 1"
    using init by (simp add: max_def split: if_splits)
  moreover have "approved state \<longrightarrow> should_continue cfg state = ''finalize''"
    by (simp add: should_continue_def)
  ultimately show ?thesis
    using run init
    by (simp add: iteration_research_run iteration_curriculum_run iteration_expert_run
        iteration_quality_run iteration_finalize_node)
qed

theorem orchestrator_iteration_bound_witness:
  "iteration (ainvoke (example_world low_score_review) default_settings
      (create_initial_state 0 ''graphs'' None ''intermediate'')) \<le> 3
   \<and> should_continue default_settings
       ((create_initial_state 0 ''graphs'' None ''intermediate'')\<lparr>approved := True\<rparr>)
       = ''finalize''"
proof -
  have m: "0 \<le> MAX_ITERATIONS default_settings"
    by (simp add: default_settings_def)
  have a: "approved ((create_initial_state 0 ''graphs'' None ''intermediate'')\<lparr>approved := True\<rparr>)"
    by simp
  show ?thesis
    using orchestrator_iteration_bound [of
        "(create_initial_state 0 ''graphs'' None ''intermediate'')\<lparr>approved := True\<rparr>"
        "example_world low_score_review" default_settings 0 "''graphs''" None "''intermediate''"]
      m a
    by (simp add: default_settings_def)
qed

text \<open>
  C3 as stated bounds the counter by \<^verbatim>\<open>MAX_ITERATIONS + 1\<close> for every configuration. The
  ceiling is an integer setting read from the environment; with \<^verbatim>\<open>MAX_ITERATIONS = -3\<close>
  the run still makes its one pass through Structuring and completes with the counter at
  1, which is above \<^verbatim>\<open>MAX_ITERATIONS + 1 = -2\<close>.
\<close>

theorem orchestrator_negative_ceiling_counterexample:
  "iteration (ainvoke (example_world low_score_review)
      (default_settings\<lparr>MAX_ITERATIONS := - 3\<rparr>)
      (create_initial_state 0 ''graphs'' None ''intermediate'')) = 1
   \<and> \<not> iteration (ainvoke (example_world low_score_review)
      (default_settings\<lparr>MAX_ITERATIONS := - 3\<rparr>)
      (create_initial_state 0 ''graphs'' None ''intermediate''))
        \<le> MAX_ITERATIONS (default_settings\<lparr>MAX_ITERATIONS := - 3\<rparr>) + 1"
  using ainvoke_initial_iteration [of "example_world low_score_review"
      "default_settings\<lparr>MAX_ITERATIONS := - 3\<rparr>" 0 "''graphs''" None "''intermediate''"]
  by simp

section \<open>Properties of \<^verbatim>\<open>generate_json\<close> on the caller's messages\<close>



















end
